theory Spec2Isabelle
  imports Complex_Main "HOL-Library.Word"
begin

unbundle bit_operations_syntax

section \<open>Python values and exceptions\<close>

text \<open>
  Python integers are unbounded: they are modelled as \<open>int\<close>, with \<open>x >> n\<close> as
  \<open>drop_bit n x\<close>, \<open>x << n\<close> as \<open>push_bit n x\<close> and \<open>&\<close>, \<open>|\<close>, \<open>^\<close>, \<open>~\<close> as the
  bitwise operations on \<open>int\<close> (two's complement on negative numbers, as in Python).
  An exception is the left summand of a result.
\<close>

datatype py_error =
  IndexError | KeyError | ValueError | OverflowError | NameError | ZeroDivisionError
  | FileNotFoundError | UnpicklingError

section \<open>sim\_sha.py: the 256-bit reference transform\<close>

definition rotr :: "int \<Rightarrow> nat \<Rightarrow> int" where
  "rotr x n = drop_bit n (x AND 0xffffffff) OR (push_bit (32 - n) x AND 0xffffffff)"

definition sigma0 :: "int \<Rightarrow> int" where
  "sigma0 x = rotr x 2 XOR rotr x 13 XOR rotr x 22"

definition sigma1 :: "int \<Rightarrow> int" where
  "sigma1 x = rotr x 6 XOR rotr x 11 XOR rotr x 25"

definition delta0 :: "int \<Rightarrow> int" where
  "delta0 x = rotr x 7 XOR rotr x 18 XOR drop_bit 3 x"

definition delta1 :: "int \<Rightarrow> int" where
  "delta1 x = rotr x 17 XOR rotr x 19 XOR drop_bit 10 x"

definition ch :: "int \<Rightarrow> int \<Rightarrow> int \<Rightarrow> int" where
  "ch x y z = (x AND y) XOR ((NOT x) AND z)"

definition maj :: "int \<Rightarrow> int \<Rightarrow> int \<Rightarrow> int" where
  "maj x y z = (x AND y) XOR (x AND z) XOR (y AND z)"

definition K :: "int list" where
  "K = [
    0x428A2F98, 0x71374491, 0xB5C0FBCF, 0xE9B5DBA5, 0x3956C25B, 0x59F111F1, 0x923F82A4, 0xAB1C5ED5,
    0xD807AA98, 0x12835B01, 0x243185BE, 0x550C7DC3, 0x72BE5D74, 0x80DEB1FE, 0x9BDC06A7, 0xC19BF174,
    0xE49B69C1, 0xEFBE4786, 0x0FC19DC6, 0x240CA1CC, 0x2DE92C6F, 0x4A7484AA, 0x5CB0A9DC, 0x76F988DA,
    0x983E5152, 0xA831C66D, 0xB00327C8, 0xBF597FC7, 0xC6E00BF3, 0xD5A79147, 0x06CA6351, 0x14292967,
    0x27B70A85, 0x2E1B2138, 0x4D2C6DFC, 0x53380D13, 0x650A7354, 0x766A0ABB, 0x81C2C92E, 0x92722C85,
    0xA2BFE8A1, 0xA81A664B, 0xC24B8B70, 0xC76C51A3, 0xD192E819, 0xD6990624, 0xF40E3585, 0x106AA070,
    0x19A4C116, 0x1E376C08, 0x2748774C, 0x34B0BCB5, 0x391C0CB3, 0x4ED8AA4A, 0x5B9CCA4F, 0x682E6FF3,
    0x748F82EE, 0x78A5636F, 0x84C87814, 0x8CC70208, 0x90BEFFDA, 0xA4506CEB, 0xBEF9A3F7, 0xC67178F2]"

text \<open>
  The first loop of \<open>transform\<close> copies \<open>data[0..15]\<close> into a list of 64 zeros; the
  second one extends the message schedule in place, for \<open>i\<close> from 16 to 63.
\<close>

definition schedule_step :: "int list \<Rightarrow> nat \<Rightarrow> int list" where
  "schedule_step m i =
     m[i := (delta1 (m ! (i - 2)) + m ! (i - 7) + delta0 (m ! (i - 15)) + m ! (i - 16))
            AND 0xffffffff]"

definition schedule :: "int list \<Rightarrow> int list" where
  "schedule data =
     foldl schedule_step (foldl (\<lambda>m i. m[i := data ! i]) (replicate 64 0) [0..<16]) [16..<64]"

text \<open>
  One round on the working variables \<open>(a, b, c, d, e, f, g, h)\<close>. The round reads the
  module-level table \<open>K\<close>; the table is an argument here, so that the same rounds can
  be run on another table, and \<open>transform\<close> below passes \<open>K\<close>.
\<close>

type_synonym sha_vars = "int \<times> int \<times> int \<times> int \<times> int \<times> int \<times> int \<times> int"

definition sha_round_with :: "int list \<Rightarrow> int list \<Rightarrow> sha_vars \<Rightarrow> nat \<Rightarrow> sha_vars" where
  "sha_round_with ks m v i =
     (case v of (a, b, c, d, e, f, g, h) \<Rightarrow>
        let t1 = (h + sigma1 e + ch e f g + ks ! i + m ! i) AND 0xffffffff;
            t2 = (sigma0 a + maj a b c) AND 0xffffffff
        in ((t1 + t2) AND 0xffffffff, a, b, c, (d + t1) AND 0xffffffff, e, f, g))"

text \<open>
  \<open>transform\<close> updates the list \<open>state\<close> in place and returns nothing; the model returns
  the updated list. \<open>data[i]\<close> raises IndexError on a block of fewer than 16 words, and
  the unpacking of \<open>state\<close> raises ValueError unless it has exactly 8 entries.
\<close>

definition transform_with :: "int list \<Rightarrow> int list \<Rightarrow> int list \<Rightarrow> py_error + int list" where
  "transform_with ks state data =
     (if length data < 16 then Inl IndexError
      else
        let m = schedule data in
        (case state of
           [s0, s1, s2, s3, s4, s5, s6, s7] \<Rightarrow>
             (case foldl (sha_round_with ks m) (s0, s1, s2, s3, s4, s5, s6, s7) [0..<64] of
                (a, b, c, d, e, f, g, h) \<Rightarrow>
                  Inr [(s0 + a) AND 0xffffffff, (s1 + b) AND 0xffffffff,
                       (s2 + c) AND 0xffffffff, (s3 + d) AND 0xffffffff,
                       (s4 + e) AND 0xffffffff, (s5 + f) AND 0xffffffff,
                       (s6 + g) AND 0xffffffff, (s7 + h) AND 0xffffffff])
         | _ \<Rightarrow> Inl ValueError))"

definition transform :: "int list \<Rightarrow> int list \<Rightarrow> py_error + int list" where
  "transform = transform_with K"

text \<open>The module-level inputs of sim\_sha.py and check\_lib.py.\<close>

definition initial_state :: "int list" where
  "initial_state = [0x6a09e667, 0xbb67ae85, 0x3c6ef372, 0xa54ff53a,
                    0x510e527f, 0x9b05688c, 0x1f83d9ab, 0x5be0cd19]"

definition abc_data :: "int list" where
  "abc_data = ((replicate 16 0)[0 := 0x61626380])[15 := 24]"

text \<open>
  For reference: the table of FIPS 180-4, which differs from \<open>K\<close> at index 60 only
  (\<open>0x90befffa\<close> there), and the message schedule of the block of \<open>abc_data\<close>.
\<close>

definition K_fips :: "int list" where
  "K_fips = K[60 := 0x90befffa]"

definition abc_schedule :: "int list" where
  "abc_schedule = [
    0x61626380, 0x00000000, 0x00000000, 0x00000000, 0x00000000, 0x00000000, 0x00000000, 0x00000000,
    0x00000000, 0x00000000, 0x00000000, 0x00000000, 0x00000000, 0x00000000, 0x00000000, 0x00000018,
    0x61626380, 0x000f0000, 0x7da86405, 0x600003c6, 0x3e9d7b78, 0x0183fc00, 0x12dcbfdb, 0xe2e2c38e,
    0xc8215c1a, 0xb73679a2, 0xe5bc3909, 0x32663c5b, 0x9d209d67, 0xec8726cb, 0x702138a4, 0xd3b7973b,
    0x93f5997f, 0x3b68ba73, 0xaff4ffc1, 0xf10a5c62, 0x0a8b3996, 0x72af830a, 0x9409e33e, 0x24641522,
    0x9f47bf94, 0xf0a64f5a, 0x3e246a79, 0x27333ba3, 0x0c4763f2, 0x840abf27, 0x7a290d5d, 0x065c43da,
    0xfb3e89cb, 0xcc7617db, 0xb9e66c34, 0xa9993667, 0x84badedd, 0xc21462bc, 0x1487472c, 0xb20f7a99,
    0xef57b9cd, 0xebe6b238, 0x9fe3095e, 0x78bc8d4b, 0xa43fcf15, 0x668b2ff8, 0xeeaba2cc, 0x12b1edeb]"

section \<open>validate\_parity.py: the generators\<close>

text \<open>Each class is a record of its registers; a method returns its value and the new object.\<close>

record V8Mwc1616 =
  v8_s1 :: int
  v8_s2 :: int

definition V8Mwc1616_init :: "int \<Rightarrow> V8Mwc1616" where
  "V8Mwc1616_init seed =
     (let r1 = seed AND 0xFFFFFFFF;
          r2 = drop_bit 32 seed AND 0xFFFFFFFF
      in \<lparr>v8_s1 = (if r1 = 0 then 1 else r1), v8_s2 = (if r2 = 0 then 1 else r2)\<rparr>)"

definition V8Mwc1616_next_u16 :: "V8Mwc1616 \<Rightarrow> int \<times> V8Mwc1616" where
  "V8Mwc1616_next_u16 g =
     (let r1 = (18000 * (v8_s1 g AND 0xFFFF) + drop_bit 16 (v8_s1 g)) AND 0xFFFFFFFF;
          r2 = (30903 * (v8_s2 g AND 0xFFFF) + drop_bit 16 (v8_s2 g)) AND 0xFFFFFFFF;
          combined = (push_bit 16 r1 + r2) AND 0xFFFFFFFF
      in (drop_bit 16 combined AND 0xFFFF, \<lparr>v8_s1 = r1, v8_s2 = r2\<rparr>))"

text \<open>The values of \<open>n\<close> successive calls of \<open>next_u16\<close> on one object.\<close>

fun V8_outputs :: "nat \<Rightarrow> V8Mwc1616 \<Rightarrow> int list" where
  "V8_outputs 0 g = []"
| "V8_outputs (Suc n) g =
     (case V8Mwc1616_next_u16 g of (x, g') \<Rightarrow> x # V8_outputs n g')"

record JavaLcg =
  java_state :: int

definition JavaLcg_init :: "int \<Rightarrow> JavaLcg" where
  "JavaLcg_init seed = \<lparr>java_state = seed AND (push_bit 48 1 - 1)\<rparr>"

definition JavaLcg_next_u16 :: "JavaLcg \<Rightarrow> int \<times> JavaLcg" where
  "JavaLcg_next_u16 g =
     (let st = (java_state g * 0x5DEECE66D + 0xB) AND (push_bit 48 1 - 1)
      in (drop_bit 16 st AND 0xFFFF, \<lparr>java_state = st\<rparr>))"

record SafariCrt =
  crt_state :: int

definition SafariCrt_init :: "int \<Rightarrow> SafariCrt" where
  "SafariCrt_init seed = \<lparr>crt_state = seed AND 0xFFFFFFFF\<rparr>"

definition SafariCrt_next_u16 :: "SafariCrt \<Rightarrow> int \<times> SafariCrt" where
  "SafariCrt_next_u16 g =
     (let st1 = (crt_state g * 214013 + 2531011) AND 0xFFFFFFFF;
          r1 = drop_bit 16 st1 AND 0x7FFF;
          st2 = (st1 * 214013 + 2531011) AND 0xFFFFFFFF;
          r2 = drop_bit 16 st2 AND 0x7FFF;
          combined = push_bit 15 r1 OR r2
      in (drop_bit 14 combined AND 0xFFFF, \<lparr>crt_state = st2\<rparr>))"

section \<open>validate\_parity.py: ARC4\<close>

record ARC4 =
  arc_s :: "int list"
  arc_i :: int
  arc_j :: int

text \<open>
  \<open>s[i], s[j] = s[j], s[i]\<close>: both right-hand values are read first, then \<open>s[i]\<close> is
  written, then \<open>s[j]\<close>.
\<close>

definition swap_entries :: "int list \<Rightarrow> nat \<Rightarrow> nat \<Rightarrow> int list" where
  "swap_entries s i j = (s[i := s ! j])[j := s ! i]"

definition ksa_step :: "int list \<Rightarrow> int list \<times> int \<Rightarrow> nat \<Rightarrow> int list \<times> int" where
  "ksa_step key sj i =
     (case sj of (s, j) \<Rightarrow>
        let j' = (j + s ! i + key ! (i mod length key)) mod 256
        in (swap_entries s i (nat j'), j'))"

text \<open>\<open>i % len(key)\<close> raises ZeroDivisionError on an empty key.\<close>

definition ARC4_init :: "int list \<Rightarrow> py_error + ARC4" where
  "ARC4_init key =
     (if length key = 0 then Inl ZeroDivisionError
      else Inr \<lparr>arc_s = fst (foldl (ksa_step key) (map int [0..<256], 0) [0..<256]),
                 arc_i = 0, arc_j = 0\<rparr>)"

definition next_byte :: "ARC4 \<Rightarrow> int \<times> ARC4" where
  "next_byte a =
     (let i = (arc_i a + 1) mod 256;
          j = (arc_j a + arc_s a ! nat i) mod 256;
          s = swap_entries (arc_s a) (nat i) (nat j)
      in (s ! nat ((s ! nat i + s ! nat j) mod 256), \<lparr>arc_s = s, arc_i = i, arc_j = j\<rparr>))"

text \<open>\<open>[arc4.next_byte() for _ in range(n)]\<close>, with the object the calls leave.\<close>

fun next_bytes :: "nat \<Rightarrow> ARC4 \<Rightarrow> int list \<times> ARC4" where
  "next_bytes 0 a = ([], a)"
| "next_bytes (Suc n) a =
     (case next_byte a of (b, a') \<Rightarrow>
        (case next_bytes n a' of (bs, a'') \<Rightarrow> (b # bs, a'')))"

section \<open>validate\_parity.py: derive\_privkey\_python\<close>

text \<open>
  The three engine branches run the same loop on their own generator:
  \<open>while len(pool) < 256\<close>, one \<open>next_u16\<close> call, the high byte appended, and the low
  byte appended if the pool is still short of 256.
\<close>

function fill_pool :: "('g \<Rightarrow> int \<times> 'g) \<Rightarrow> 'g \<Rightarrow> int list \<Rightarrow> int list" where
  "fill_pool next_u16 prng pool =
     (if length pool < 256 then
        (case next_u16 prng of (val, prng') \<Rightarrow>
           fill_pool next_u16 prng'
             (if length (pool @ [drop_bit 8 val AND 0xFF]) < 256
              then pool @ [drop_bit 8 val AND 0xFF] @ [val AND 0xFF]
              else pool @ [drop_bit 8 val AND 0xFF]))
      else pool)"
  by pat_completeness auto
termination
  by (relation "measure (\<lambda>(f, g, pool). 256 - length pool)") auto

declare fill_pool.simps [simp del]

text \<open>The pool of an engine; \<open>None\<close> where the source returns \<open>None\<close>.\<close>

definition engine_pool :: "int \<Rightarrow> string \<Rightarrow> int list option" where
  "engine_pool ts engine_type =
     (if engine_type = ''v8'' then
        Some (fill_pool V8Mwc1616_next_u16 (V8Mwc1616_init ts) [])
      else if engine_type \<in> set [''java'', ''ie''] then
        Some (fill_pool JavaLcg_next_u16 (JavaLcg_init ts) [])
      else if engine_type = ''safari-win'' then
        Some (fill_pool SafariCrt_next_u16 (SafariCrt_init ts) [])
      else None)"

definition ts_bytes :: "int \<Rightarrow> int list" where
  "ts_bytes ts = [ts AND 0xFF, drop_bit 8 ts AND 0xFF, drop_bit 16 ts AND 0xFF,
                  drop_bit 24 ts AND 0xFF]"

definition xor_timestamp :: "int \<Rightarrow> int list \<Rightarrow> int list" where
  "xor_timestamp ts pool = foldl (\<lambda>p i. p[i := p ! i XOR ts_bytes ts ! i]) pool [0..<4]"

text \<open>
  The result is \<open>None\<close> for an engine the source does not know, and otherwise the 32
  values of the list comprehension, which \<open>bytes\<close> accepts when each is in
  \<open>range(256)\<close>. The pool has 256 entries, so the key of \<open>ARC4\<close> is never empty
  (lemma \<open>length_fill_pool\<close>); the error branch of \<open>ARC4_init\<close> is kept as \<open>None\<close>
  only to make the function total.
\<close>

definition derive_privkey_python :: "int \<Rightarrow> string \<Rightarrow> int list option" where
  "derive_privkey_python ts engine_type =
     (case engine_pool ts engine_type of
        None \<Rightarrow> None
      | Some pool \<Rightarrow>
          (case ARC4_init (xor_timestamp ts pool) of
             Inl err \<Rightarrow> None
           | Inr arc4 \<Rightarrow> Some (fst (next_bytes 32 arc4))))"

text \<open>What \<open>bytes\<close> accepts as an entry.\<close>

definition is_byte :: "int \<Rightarrow> bool" where
  "is_byte b = (0 \<le> b \<and> b < 256)"

text \<open>
  Following the spec's words (4.2, first family), for comparison with
  \<open>derive_privkey_python\<close>: the whitened pool is the pool with its first 4 bytes XORed
  with the little-endian bytes of the timestamp; the cipher has a 256-entry state table,
  a key-scheduling loop and a lagged-swap keystream generator; the key is the first 32
  keystream bytes, none discarded.
\<close>

definition spec_le_byte :: "int \<Rightarrow> nat \<Rightarrow> int" where
  "spec_le_byte ts k = (ts div 256 ^ k) mod 256"

definition spec_whiten :: "int \<Rightarrow> int list \<Rightarrow> int list" where
  "spec_whiten ts pool =
     map (\<lambda>k. if k < 4 then pool ! k XOR spec_le_byte ts k else pool ! k) [0..<length pool]"

definition spec_swap :: "int list \<Rightarrow> nat \<Rightarrow> nat \<Rightarrow> int list" where
  "spec_swap S a b = map (\<lambda>k. if k = a then S ! b else if k = b then S ! a else S ! k) [0..<length S]"

text \<open>The state table and the index \<open>j\<close> after the first \<open>n\<close> rounds of the key schedule.\<close>

fun spec_key_schedule :: "int list \<Rightarrow> nat \<Rightarrow> int list \<times> nat" where
  "spec_key_schedule key 0 = (map int [0..<256], 0)"
| "spec_key_schedule key (Suc n) =
     (case spec_key_schedule key n of (S, j) \<Rightarrow>
        let j' = nat ((int j + S ! n + key ! (n mod length key)) mod 256)
        in (spec_swap S n j', j'))"

text \<open>The generator's state \<open>(S, i, j)\<close> after \<open>n\<close> keystream bytes, and the \<open>n\<close>-th byte.\<close>

fun spec_generator :: "int list \<Rightarrow> nat \<Rightarrow> int list \<times> nat \<times> nat" where
  "spec_generator S0 0 = (S0, 0, 0)"
| "spec_generator S0 (Suc n) =
     (case spec_generator S0 n of (S, i, j) \<Rightarrow>
        let i' = (i + 1) mod 256;
            j' = nat ((int j + S ! i') mod 256)
        in (spec_swap S i' j', i', j'))"

definition spec_keystream_byte :: "int list \<Rightarrow> nat \<Rightarrow> int" where
  "spec_keystream_byte S0 n =
     (case spec_generator S0 (Suc n) of (S, i, j) \<Rightarrow> S ! nat ((S ! i + S ! j) mod 256))"

definition spec_privkey :: "int \<Rightarrow> int list \<Rightarrow> int list" where
  "spec_privkey ts pool =
     map (spec_keystream_byte (fst (spec_key_schedule (spec_whiten ts pool) 256))) [0..<32]"

text \<open>
  A worked example, for the theorems that need concrete values: the timestamp
  1389781800000 (15 January 2014, the base timestamp of the test-vector script) on the
  engine \<open>v8\<close>. \<open>example_pool\<close> is the entropy pool of that call,
  \<open>example_table\<close> the state table after the key setup on the whitened pool, and
  \<open>example_key\<close> the 32 bytes the call returns.
\<close>

definition example_pool :: "int list" where
  "example_pool =
     [106, 11, 162, 71, 4, 241, 143, 56, 134, 223, 255, 122, 236, 164, 123, 34,
      6, 251, 203, 15, 41, 216, 29, 174, 112, 27, 13, 162, 28, 98, 56, 152,
      22, 11, 152, 193, 52, 165, 156, 245, 46, 215, 198, 134, 95, 182, 112, 244,
      164, 18, 9, 238, 97, 69, 191, 64, 229, 235, 217, 14, 51, 220, 15, 107,
      29, 89, 30, 221, 144, 165, 144, 99, 159, 83, 141, 5, 25, 27, 209, 145,
      229, 109, 154, 50, 94, 92, 121, 194, 181, 245, 53, 77, 209, 149, 167, 38,
      153, 192, 21, 13, 199, 192, 47, 180, 179, 181, 238, 226, 34, 250, 141, 16,
      47, 228, 114, 34, 27, 116, 123, 150, 114, 8, 237, 23, 67, 41, 200, 21,
      189, 180, 204, 207, 63, 152, 103, 124, 171, 135, 78, 15, 236, 233, 130, 88,
      207, 27, 133, 106, 6, 124, 227, 94, 14, 120, 6, 35, 160, 227, 40, 47,
      233, 176, 16, 60, 241, 97, 142, 25, 166, 6, 234, 103, 194, 114, 35, 47,
      156, 201, 89, 117, 195, 213, 21, 43, 6, 104, 18, 81, 129, 56, 0, 71,
      247, 125, 99, 36, 236, 25, 31, 230, 197, 222, 98, 101, 33, 95, 161, 183,
      192, 173, 84, 185, 91, 209, 226, 56, 204, 81, 133, 188, 229, 98, 244, 129,
      248, 240, 209, 181, 125, 32, 101, 129, 34, 236, 179, 50, 159, 148, 196, 99,
      4, 138, 91, 79, 53, 193, 146, 251, 220, 84, 15, 1, 63, 137, 159, 200]"

definition example_table :: "int list" where
  "example_table =
     [12, 151, 219, 33, 157, 23, 197, 58, 45, 80, 125, 209, 55, 167, 4, 107,
      215, 141, 39, 9, 214, 182, 233, 110, 130, 207, 145, 78, 97, 121, 87, 106,
      72, 116, 236, 31, 25, 52, 246, 60, 103, 113, 34, 65, 36, 77, 213, 176,
      61, 210, 92, 15, 73, 14, 208, 63, 83, 136, 19, 184, 35, 164, 243, 67,
      153, 154, 86, 1, 37, 105, 71, 217, 152, 127, 146, 161, 251, 166, 244, 212,
      160, 158, 76, 108, 99, 155, 44, 10, 117, 82, 181, 29, 216, 101, 206, 187,
      192, 90, 228, 240, 124, 120, 183, 231, 57, 254, 139, 218, 193, 134, 174, 8,
      79, 232, 102, 22, 89, 81, 133, 6, 5, 48, 84, 165, 95, 242, 122, 205,
      230, 28, 66, 91, 195, 69, 170, 143, 112, 27, 171, 148, 147, 180, 202, 13,
      3, 137, 178, 115, 248, 16, 42, 235, 224, 26, 190, 68, 188, 221, 163, 40,
      191, 53, 94, 237, 64, 18, 11, 114, 199, 144, 111, 70, 173, 203, 75, 194,
      32, 225, 0, 222, 24, 132, 135, 177, 226, 50, 247, 100, 20, 211, 47, 250,
      175, 49, 241, 88, 200, 2, 172, 85, 38, 54, 109, 253, 62, 169, 149, 123,
      186, 74, 204, 220, 196, 189, 128, 245, 21, 150, 249, 93, 98, 238, 185, 227,
      223, 142, 252, 198, 239, 7, 255, 104, 159, 162, 140, 138, 46, 168, 41, 51,
      234, 43, 118, 17, 156, 129, 229, 56, 119, 30, 126, 96, 131, 179, 59, 201]"

definition example_key :: "int list" where
  "example_key =
     [66, 154, 248, 249, 234, 131, 28, 1, 199, 233, 206, 105, 26, 72, 26, 60,
      54, 148, 74, 209, 44, 232, 223, 17, 58, 173, 1, 24, 181, 134, 105, 67]"

section \<open>validate\_parity.py: main\<close>

record test_vector =
  vulnerability :: string
  timestamp_ms :: int
  engine :: string
  expected_privkey_hex :: string

text \<open>\<open>binascii.hexlify(b).decode()\<close>: two lower-case hexadecimal digits for each byte.\<close>

definition hex_digit :: "int \<Rightarrow> char" where
  "hex_digit d = ''0123456789abcdef'' ! nat d"

definition hexlify :: "int list \<Rightarrow> string" where
  "hexlify bs = concat (map (\<lambda>b. [hex_digit (b div 16), hex_digit (b mod 16)]) bs)"

record tally =
  passed :: nat
  failed :: nat

text \<open>
  The loop of \<open>main\<close> over the vectors that are left. It returns the counters, whether it
  left through \<open>break\<close>, and the vectors it never reached. The lines it prints (the
  mismatch report with engine, timestamp, expected and computed key, and the progress line
  every 1000 vectors) change neither the counters nor the control flow and are left out.
\<close>

fun main_loop :: "test_vector list \<Rightarrow> tally \<Rightarrow> tally \<times> bool \<times> test_vector list" where
  "main_loop [] t = (t, False, [])"
| "main_loop (v # vs) t =
     (if vulnerability v \<noteq> ''randstorm'' then main_loop vs t
      else
        (case derive_privkey_python (timestamp_ms v) (engine v) of
           None \<Rightarrow> main_loop vs t
         | Some py_privkey_bytes \<Rightarrow>
             if hexlify py_privkey_bytes = expected_privkey_hex v
             then main_loop vs (t\<lparr>passed := passed t + 1\<rparr>)
             else if failed t + 1 > 5 then (t\<lparr>failed := failed t + 1\<rparr>, True, vs)
             else main_loop vs (t\<lparr>failed := failed t + 1\<rparr>)))"

text \<open>
  \<open>main\<close> on the content of the vector file (\<open>None\<close> when the file is missing: the
  function prints an error and returns, so the process ends with status 0). The result is
  the exit status with what the loop returned.
\<close>

definition main :: "test_vector list option \<Rightarrow> int \<times> (tally \<times> bool \<times> test_vector list) option" where
  "main file =
     (case file of
        None \<Rightarrow> (0, None)
      | Some vectors \<Rightarrow>
          (let r = main_loop vectors \<lparr>passed = 0, failed = 0\<rparr>
           in (if failed (fst r) = 0 then 0 else 1, Some r)))"

section \<open>generate\_test\_vectors\_option\_a.py: VulnerablePRNG\<close>

text \<open>
  \<open>next_random\<close> returns the Python float \<open>self.seed / self.MODULUS\<close>. A float is
  modelled by the rational number it holds. Python's \<open>/\<close> on two integers is the
  quotient correctly rounded to a double (53 significant bits, ties to even);
  \<open>py_truediv a b\<close> is that value for \<open>0 \<le> a\<close> and \<open>0 < b\<close> with a quotient in the
  normal range of doubles, which holds for every call of the source
  (\<open>0 \<le> seed \<le> MODULUS\<close>).
\<close>

function binade :: "int \<Rightarrow> int \<Rightarrow> nat \<Rightarrow> nat" where
  "binade a b e = (if a \<le> 0 \<or> 2 ^ 52 * b \<le> a * 2 ^ e then e else binade a b (Suc e))"
  by pat_completeness auto
termination
proof (relation "measure (\<lambda>(a, b, e). nat (2 ^ 52 * b) - e)")
  show "wf (measure (\<lambda>(a, b, e). nat (2 ^ 52 * b) - e))"
    by simp
next
  fix a b :: int and e :: nat
  assume "\<not> (a \<le> 0 \<or> 2 ^ 52 * b \<le> a * 2 ^ e)"
  then have a: "1 \<le> a" and lt: "a * 2 ^ e < 2 ^ 52 * b"
    by simp_all
  have "int e < 2 ^ e"
    by (metis of_nat_less_two_power of_nat_numeral of_nat_power)
  also have "(2::int) ^ e \<le> a * 2 ^ e"
    using a by (simp add: mult_le_cancel_right1)
  finally have "int e < 2 ^ 52 * b"
    using lt by linarith
  then have "e < nat (2 ^ 52 * b)"
    by linarith
  then show "((a, b, Suc e), (a, b, e)) \<in> measure (\<lambda>(a, b, e). nat (2 ^ 52 * b) - e)"
    by simp
qed

declare binade.simps [simp del]

definition round_half_even :: "int \<Rightarrow> int \<Rightarrow> int" where
  "round_half_even n d =
     (let q = n div d; r = n mod d
      in if 2 * r < d then q
         else if d < 2 * r then q + 1
         else if even q then q else q + 1)"

definition py_truediv :: "int \<Rightarrow> int \<Rightarrow> rat" where
  "py_truediv a b =
     (let e = binade a b 0
      in of_int (round_half_even (a * 2 ^ e) b) / 2 ^ e)"

text \<open>\<open>int(x)\<close> on a float truncates towards zero.\<close>

definition py_int :: "rat \<Rightarrow> int" where
  "py_int x = (if 0 \<le> x then \<lfloor>x\<rfloor> else \<lceil>x\<rceil>)"

text \<open>\<open>n.to_bytes(length, 'little')\<close> raises OverflowError unless \<open>0 \<le> n < 256 ^ length\<close>.\<close>

definition to_bytes_little :: "int \<Rightarrow> nat \<Rightarrow> py_error + int list" where
  "to_bytes_little n len =
     (if n < 0 \<or> 256 ^ len \<le> n then Inl OverflowError
      else Inr (map (\<lambda>k. drop_bit (8 * k) n AND 0xFF) [0..<len]))"

definition MULTIPLIER :: int where
  "MULTIPLIER = 25214903917"

definition INCREMENT :: int where
  "INCREMENT = 11"

definition MODULUS :: int where
  "MODULUS = push_bit 48 1 - 1"

record VulnerablePRNG =
  prng_seed :: int
  prng_timestamp_ms :: int

definition VulnerablePRNG_init :: "int \<Rightarrow> int \<Rightarrow> VulnerablePRNG" where
  "VulnerablePRNG_init ts sequence = \<lparr>prng_seed = ts XOR sequence, prng_timestamp_ms = ts\<rparr>"

definition next_random :: "VulnerablePRNG \<Rightarrow> rat \<times> VulnerablePRNG" where
  "next_random g =
     (let x = (prng_seed g * MULTIPLIER + INCREMENT) AND MODULUS
      in (py_truediv x MODULUS, g\<lparr>prng_seed := x\<rparr>))"

text \<open>
  \<open>entropy[a:b] = bs\<close> on a bytearray replaces the slice by \<open>bs\<close>. The loop body of
  \<open>generate_entropy\<close> draws, scales by 65536, truncates and stores 8 bytes at offset
  \<open>8 + 8 * i\<close>.
\<close>

definition assign_slice :: "int list \<Rightarrow> nat \<Rightarrow> nat \<Rightarrow> int list \<Rightarrow> int list" where
  "assign_slice entropy a b bs = take a entropy @ bs @ drop b entropy"

fun entropy_loop :: "nat list \<Rightarrow> VulnerablePRNG \<Rightarrow> int list \<Rightarrow> py_error + int list" where
  "entropy_loop [] g entropy = Inr entropy"
| "entropy_loop (i # is) g entropy =
     (case next_random g of (x, g') \<Rightarrow>
        (case to_bytes_little (py_int (x * 65536)) 8 of
           Inl err \<Rightarrow> Inl err
         | Inr bs \<Rightarrow> entropy_loop is g' (assign_slice entropy (8 + i * 8) (8 + (i + 1) * 8) bs)))"

definition generate_entropy :: "VulnerablePRNG \<Rightarrow> py_error + int list" where
  "generate_entropy g =
     (case to_bytes_little (prng_timestamp_ms g) 8 of
        Inl err \<Rightarrow> Inl err
      | Inr bs \<Rightarrow> entropy_loop [0..<3] g (assign_slice (replicate 32 0) 0 8 bs))"

text \<open>
  \<open>hashlib.sha256(entropy).digest()\<close>: the hash is the standard library's and is an
  argument of the model.
\<close>

definition derive_private_key :: "(int list \<Rightarrow> int list) \<Rightarrow> VulnerablePRNG \<Rightarrow> py_error + int list" where
  "derive_private_key sha256 g =
     (case generate_entropy g of
        Inl err \<Rightarrow> Inl err
      | Inr entropy \<Rightarrow> Inr (sha256 entropy))"

section \<open>bloom-util.py\<close>

text \<open>
  Modelled from the spec: \<open>pybloom_live.BloomFilter\<close>, a third-party library that is not
  part of the sources. The spec calls it an opaque probabilistic set of byte strings,
  built with a capacity and an error rate, with a bit array and parameters as its
  serialised content. The model is the classical structure: the bit array as the set of
  the positions that are set, one slice of \<open>bits_per_slice\<close> bits for each hash value, and
  the number of distinct insertions. \<open>add\<close> refuses a filter whose count exceeds its capacity
  (the library raises IndexError), sets the bits of the key and counts the key unless all
  its bits were set before; \<open>in\<close> tests the bits of the key. The hash functions of the
  library are the argument \<open>make_hashes\<close>: the positions of a key inside the slices.
\<close>

record BloomFilter =
  bits_per_slice :: nat
  bitarray :: "nat set"
  count :: nat
  capacity :: nat

type_synonym hashes = "string \<Rightarrow> nat list"

definition slice_bits :: "hashes \<Rightarrow> BloomFilter \<Rightarrow> string \<Rightarrow> nat list" where
  "slice_bits make_hashes bf key =
     map (\<lambda>(n, k). n * bits_per_slice bf + k) (enumerate 0 (make_hashes key))"

definition bloom_contains :: "hashes \<Rightarrow> BloomFilter \<Rightarrow> string \<Rightarrow> bool" where
  "bloom_contains make_hashes bf key =
     list_all (\<lambda>p. p \<in> bitarray bf) (slice_bits make_hashes bf key)"

definition bloom_add :: "hashes \<Rightarrow> BloomFilter \<Rightarrow> string \<Rightarrow> py_error + BloomFilter" where
  "bloom_add make_hashes bf key =
     (if capacity bf < count bf then Inl IndexError
      else Inr (bf\<lparr>bitarray := bitarray bf \<union> set (slice_bits make_hashes bf key),
                    count := (if bloom_contains make_hashes bf key then count bf
                              else count bf + 1)\<rparr>))"

text \<open>
  Modelled from the spec: the constructor \<open>BloomFilter(capacity, error_rate)\<close>. The
  library derives the number and the width of the slices from its two arguments; the
  width is an argument here, and the new filter has no bit set.
\<close>

definition BloomFilter_init :: "nat \<Rightarrow> nat \<Rightarrow> BloomFilter" where
  "BloomFilter_init width cap = \<lparr>bits_per_slice = width, bitarray = {}, count = 0, capacity = cap\<rparr>"

text \<open>
  Files. A text file is the list of its lines, a CSV file the list of the rows
  \<open>csv.reader\<close> yields for it, and a pickled filter the filter itself
  (\<open>pickle.load\<close> returns what \<open>pickle.dump\<close> was given). \<open>open\<close> raises
  FileNotFoundError on a name that is not there.
\<close>

datatype file_content = Lines "string list" | Rows "string list list" | Pickle BloomFilter

type_synonym files = "string \<rightharpoonup> file_content"

definition is_space :: "char \<Rightarrow> bool" where
  "is_space c = (c \<in> set [CHR '' '', CHR 0x09, CHR 0x0A, CHR 0x0B, CHR 0x0C, CHR 0x0D,
                          CHR 0x1C, CHR 0x1D, CHR 0x1E, CHR 0x1F])"

definition strip :: "string \<Rightarrow> string" where
  "strip s = rev (dropWhile is_space (rev (dropWhile is_space s)))"

text \<open>\<open>str.encode()\<close>: a \<open>string\<close> already is the list of its bytes.\<close>

definition encode :: "string \<Rightarrow> string" where
  "encode s = s"

fun add_lines :: "hashes \<Rightarrow> string list \<Rightarrow> BloomFilter \<Rightarrow> py_error + BloomFilter" where
  "add_lines make_hashes [] bf = Inr bf"
| "add_lines make_hashes (line # rest) bf =
     (case bloom_add make_hashes bf (encode (strip line)) of
        Inl err \<Rightarrow> Inl err
      | Inr bf' \<Rightarrow> add_lines make_hashes rest bf')"

definition load_filter :: "files \<Rightarrow> string \<Rightarrow> py_error + BloomFilter" where
  "load_filter fs filter_file =
     (case fs filter_file of
        None \<Rightarrow> Inl FileNotFoundError
      | Some (Pickle bf) \<Rightarrow> Inr bf
      | Some _ \<Rightarrow> Inl UnpicklingError)"

text \<open>
  \<open>construct_bloom_filter\<close> returns the files it leaves. The width of the slices stands
  for what the library derives from \<open>capacity=1180626779, error_rate=0.000000001\<close>.
\<close>

definition construct_bloom_filter ::
  "hashes \<Rightarrow> nat \<Rightarrow> files \<Rightarrow> string \<Rightarrow> string \<Rightarrow> py_error + files" where
  "construct_bloom_filter make_hashes width fs addresses_file filter_file =
     (case fs addresses_file of
        None \<Rightarrow> Inl FileNotFoundError
      | Some (Lines ls) \<Rightarrow>
          (case add_lines make_hashes ls (BloomFilter_init width 1180626779) of
             Inl err \<Rightarrow> Inl err
           | Inr bf \<Rightarrow> Inr (fs(filter_file \<mapsto> Pickle bf)))
      | Some _ \<Rightarrow> Inl ValueError)"

definition check_address :: "hashes \<Rightarrow> files \<Rightarrow> string \<Rightarrow> string \<Rightarrow> py_error + bool" where
  "check_address make_hashes fs filter_file address =
     (case load_filter fs filter_file of
        Inl err \<Rightarrow> Inl err
      | Inr bf \<Rightarrow> Inr (bloom_contains make_hashes bf (encode address)))"

text \<open>
  The loop of \<open>check_address_csv\<close>. Its state is the line counter \<open>i\<close>, the number of
  hits and the lines to skip; it returns the hits and the lines it printed.
  \<open>dataline[0]\<close> and \<open>dataline[1]\<close> raise IndexError on a row of fewer than two fields.
  The handler is written \<open>except e:\<close>, and no name \<open>e\<close> is bound anywhere in the module:
  to match the exception Python evaluates \<open>e\<close>, which raises NameError, and that
  exception leaves the function.
\<close>

record csv_state =
  csv_i :: nat
  found :: nat
  skip_lines_remaining :: int
  printed :: "string list"

function show_nat :: "nat \<Rightarrow> string" where
  "show_nat n =
     (if n < 10 then [char_of (48 + n)]
      else show_nat (n div 10) @ [char_of (48 + n mod 10)])"
  by pat_completeness auto
termination
  by (relation "measure id") auto

declare show_nat.simps [simp del]

definition show_int :: "int \<Rightarrow> string" where
  "show_int i = (if i < 0 then CHR ''-'' # show_nat (nat (- i)) else show_nat (nat i))"

fun csv_loop :: "hashes \<Rightarrow> BloomFilter \<Rightarrow> string list list \<Rightarrow> csv_state \<Rightarrow> py_error + csv_state" where
  "csv_loop make_hashes bf [] st = Inr st"
| "csv_loop make_hashes bf (dataline # rest) st =
     (if 0 < skip_lines_remaining st then
        csv_loop make_hashes bf rest
          (st\<lparr>skip_lines_remaining := skip_lines_remaining st - 1, csv_i := csv_i st + 1\<rparr>)
      else
        (case dataline of
           address_id # address # _ \<Rightarrow>
             (let hit = bloom_contains make_hashes bf (encode address);
                  st1 = (if hit
                         then st\<lparr>found := found st + 1,
                                 printed := printed st @ [address_id @ '','' @ address]\<rparr>
                         else st);
                  st2 = st1\<lparr>csv_i := csv_i st1 + 1\<rparr>;
                  st3 = (if csv_i st2 mod 10000000 = 0
                         then st2\<lparr>printed := printed st2 @
                                   [''read '' @ show_nat (csv_i st2) @ '' lines'']\<rparr>
                         else st2)
              in csv_loop make_hashes bf rest st3)
         | _ \<Rightarrow> Inl NameError))"

definition check_address_csv ::
  "hashes \<Rightarrow> files \<Rightarrow> string \<Rightarrow> string \<Rightarrow> int \<Rightarrow> py_error + nat \<times> string list" where
  "check_address_csv make_hashes fs filter_file address_csv_file skip_lines =
     (case load_filter fs filter_file of
        Inl err \<Rightarrow> Inl err
      | Inr bf \<Rightarrow>
          (case fs address_csv_file of
             None \<Rightarrow> Inl FileNotFoundError
           | Some (Rows rows) \<Rightarrow>
               (case csv_loop make_hashes bf rows
                       \<lparr>csv_i = 0, found = 0, skip_lines_remaining = skip_lines,
                        printed = [''unpickled bloom filter file'']\<rparr> of
                  Inl err \<Rightarrow> Inl err
                | Inr st \<Rightarrow>
                    Inr (found st,
                         printed st @ [''found '' @ show_nat (found st) @
                                       '' address hits in total against the bloom filter'']))
           | Some _ \<Rightarrow> Inl ValueError))"

section \<open>generate\_ripemd160\_wgsl.py\<close>

text \<open>
  A row of a round is \<open>(vars, r_left, s_left, r_right, s_right)\<close>; a round is
  \<open>(round_name, f_left, k_left, f_right, k_right, rows)\<close>. The string methods are
  modelled on ASCII text, which is what the table of the script holds.
\<close>

type_synonym round_row = "string \<times> int \<times> int \<times> int \<times> int"

type_synonym round_spec = "string \<times> string \<times> string \<times> string \<times> string \<times> round_row list"

definition f_functions :: "(string \<times> string) list" where
  "f_functions =
     [(''F1'', ''(b ^ c ^ d)''),
      (''F2'', ''((b & c) | ((~b) & d))''),
      (''F3'', ''((b | (~c)) ^ d)''),
      (''F4'', ''((b & d) | (c & (~d)))''),
      (''F5'', ''(b ^ (c | (~d)))'')]"

definition lower_char :: "char \<Rightarrow> char" where
  "lower_char c =
     (if (65 :: nat) \<le> of_char c \<and> of_char c \<le> (90 :: nat)
      then char_of (of_char c + (32 :: nat)) else c)"

definition upper_char :: "char \<Rightarrow> char" where
  "upper_char c =
     (if (97 :: nat) \<le> of_char c \<and> of_char c \<le> (122 :: nat)
      then char_of (of_char c - (32 :: nat)) else c)"

definition lower :: "string \<Rightarrow> string" where
  "lower s = map lower_char s"

definition capitalize :: "string \<Rightarrow> string" where
  "capitalize s = (case s of [] \<Rightarrow> [] | c # cs \<Rightarrow> upper_char c # lower cs)"

text \<open>\<open>s.split(',')\<close>: the pieces between the separators, empty pieces included.\<close>

fun split_on :: "char \<Rightarrow> string \<Rightarrow> string list" where
  "split_on sep [] = [[]]"
| "split_on sep (c # cs) =
     (if c = sep then [] # split_on sep cs
      else (case split_on sep cs of
              [] \<Rightarrow> [[c]]
            | w # ws \<Rightarrow> (c # w) # ws))"

text \<open>
  \<open>s.replace(old, new)\<close>: the occurrences of \<open>old\<close> are replaced from the left, without
  overlap; an empty \<open>old\<close> matches before every character and at the end.
\<close>

function replace_from :: "string \<Rightarrow> string \<Rightarrow> string \<Rightarrow> string" where
  "replace_from old new s =
     (if s = [] \<or> old = [] then s
      else if take (length old) s = old
      then new @ replace_from old new (drop (length old) s)
      else hd s # replace_from old new (tl s))"
  by pat_completeness auto
termination
  by (relation "measure (\<lambda>(old, new, s). length s)") auto

declare replace_from.simps [simp del]

definition replace :: "string \<Rightarrow> string \<Rightarrow> string \<Rightarrow> string" where
  "replace s old new =
     (if old = [] then new @ concat (map (\<lambda>c. c # new) s) else replace_from old new s)"

text \<open>
  \<open>apply_func\<close>: the dictionary \<open>var_map\<close> is the list of its items in insertion order,
  which is the order Python iterates a dictionary in.
\<close>

definition apply_func :: "string \<Rightarrow> (string \<times> string) list \<Rightarrow> string" where
  "apply_func func_expr var_map =
     (let result = foldl (\<lambda>r (old, new). replace r old (''___'' @ old @ ''___'')) func_expr var_map
      in foldl (\<lambda>r (old, new). replace r (''___'' @ old @ ''___'') new) result var_map)"

text \<open>
  The body of the loop of \<open>generate_round\<close> for one row: the two lines it appends. The
  unpacking of the five variables raises ValueError on another number of pieces, and
  \<open>f_functions[f_left]\<close>, then \<open>f_functions[f_right]\<close>, raise KeyError on an unknown
  selector.
\<close>

definition round_lines ::
  "string \<Rightarrow> string \<Rightarrow> string \<Rightarrow> string \<Rightarrow> round_row \<Rightarrow> py_error + string list" where
  "round_lines f_left k_left f_right k_right row =
     (case row of (vars_str, r_left, s_left, r_right, s_right) \<Rightarrow>
        (case map lower (split_on CHR '','' vars_str) of
           [a, b, c, d, e] \<Rightarrow>
             (case map_of f_functions f_left of
                None \<Rightarrow> Inl KeyError
              | Some fl \<Rightarrow>
                  (case map_of f_functions f_right of
                     None \<Rightarrow> Inl KeyError
                   | Some fr \<Rightarrow>
                       (let ap = a @ ''p''; bp = b @ ''p''; cp = c @ ''p''; dp = d @ ''p'';
                            ep = e @ ''p'';
                            f_left_expr = apply_func fl [(''b'', b), (''c'', c), (''d'', d)];
                            f_right_expr = apply_func fr [(''b'', bp), (''c'', cp), (''d'', dp)]
                        in Inr
                          [''    '' @ a @ '' += '' @ f_left_expr @ '' + block['' @ show_int r_left
                             @ ''] + '' @ k_left @ ''; '' @ a @ '' = rol('' @ a @ '', ''
                             @ show_int s_left @ ''u) + '' @ e @ ''; '' @ c @ '' = rol('' @ c
                             @ '', 10u);'',
                           ''    '' @ ap @ '' += '' @ f_right_expr @ '' + block[''
                             @ show_int r_right @ ''] + '' @ k_right @ ''; '' @ ap @ '' = rol(''
                             @ ap @ '', '' @ show_int s_right @ ''u) + '' @ ep @ ''; '' @ cp
                             @ '' = rol('' @ cp @ '', 10u);''])))
         | _ \<Rightarrow> Inl ValueError))"

fun rows_lines ::
  "string \<Rightarrow> string \<Rightarrow> string \<Rightarrow> string \<Rightarrow> round_row list \<Rightarrow> string list \<Rightarrow> py_error + string list" where
  "rows_lines f_left k_left f_right k_right [] lines = Inr lines"
| "rows_lines f_left k_left f_right k_right (row # round_data) lines =
     (case round_lines f_left k_left f_right k_right row of
        Inl err \<Rightarrow> Inl err
      | Inr two \<Rightarrow> rows_lines f_left k_left f_right k_right round_data (lines @ two))"

text \<open>\<open>'\n'.join(lines)\<close>.\<close>

fun join_lines :: "string list \<Rightarrow> string" where
  "join_lines [] = []"
| "join_lines [l] = l"
| "join_lines (l # ls) = l @ [CHR 0x0A] @ join_lines ls"

definition generate_round ::
  "string \<Rightarrow> string \<Rightarrow> string \<Rightarrow> string \<Rightarrow> string \<Rightarrow> round_row list \<Rightarrow> py_error + string" where
  "generate_round round_name f_left k_left f_right k_right round_data =
     (case rows_lines f_left k_left f_right k_right round_data
             [''    // '' @ capitalize round_name @ '': '' @ f_left @ '' left, '' @ f_right
                @ '' right''] of
        Inl err \<Rightarrow> Inl err
      | Inr lines \<Rightarrow> Inr (join_lines lines))"

text \<open>
  The module body: \<open>print\<close> appends its argument and a newline to the standard output.
  The script is modelled on the table it is given and the output written so far; it
  returns the exception that ended it, if any, and the output.
\<close>

definition print :: "string \<Rightarrow> string \<Rightarrow> string" where
  "print text out = out @ text @ [CHR 0x0A]"

fun print_rounds :: "round_spec list \<Rightarrow> string \<Rightarrow> py_error option \<times> string" where
  "print_rounds [] out = (None, out)"
| "print_rounds ((round_name, f_left, k_left, f_right, k_right, round_data) # rest) out =
     (case generate_round round_name f_left k_left f_right k_right round_data of
        Inl err \<Rightarrow> (Some err, out)
      | Inr text \<Rightarrow> print_rounds rest (print [] (print text out)))"

text \<open>The text \<open>( *state)[k]\<close> of the printed lines, without the blank.\<close>

definition state_at :: "string \<Rightarrow> string" where
  "state_at k = CHR ''('' # ''*state)['' @ k @ '']''"

definition header_lines :: "string list" where
  "header_lines =
     [''fn ripemd160_transform(state: ptr<function, array<u32, 5>>, block: array<u32, 16>) {'',
      ''    var a = '' @ state_at ''0'' @ ''; var b = '' @ state_at ''1'' @ ''; var c = ''
        @ state_at ''2'' @ ''; var d = '' @ state_at ''3'' @ ''; var e = '' @ state_at ''4''
        @ '';'',
      ''    var ap = a; var bp = b; var cp = c; var dp = d; var ep = e;'',
      []]"

definition footer_lines :: "string list" where
  "footer_lines =
     [''    let h0 = '' @ state_at ''0'' @ '';'',
      ''    let h1 = '' @ state_at ''1'' @ '';'',
      ''    let h2 = '' @ state_at ''2'' @ '';'',
      ''    let h3 = '' @ state_at ''3'' @ '';'',
      ''    let h4 = '' @ state_at ''4'' @ '';'',
      ''    '',
      ''    '' @ state_at ''0'' @ '' = h1 + c + dp;'',
      ''    '' @ state_at ''1'' @ '' = h2 + d + ep;'',
      ''    '' @ state_at ''2'' @ '' = h3 + e + ap;'',
      ''    '' @ state_at ''3'' @ '' = h4 + a + bp;'',
      ''    '' @ state_at ''4'' @ '' = h0 + b + cp;'',
      ''}'']"

definition generate_kernel :: "round_spec list \<Rightarrow> string \<Rightarrow> py_error option \<times> string" where
  "generate_kernel rounds out =
     (case print_rounds rounds (foldl (\<lambda>out l. print l out) out header_lines) of
        (Some err, out') \<Rightarrow> (Some err, out')
      | (None, out') \<Rightarrow> (None, foldl (\<lambda>out l. print l out) out' footer_lines))"

section \<open>The generators and the entropy pool\<close>

lemma V8Mwc1616_init_low_zero:
  "seed AND 0xFFFFFFFF = 0 \<Longrightarrow>
   V8Mwc1616_init seed = \<lparr>v8_s1 = 1, v8_s2 = v8_s2 (V8Mwc1616_init seed)\<rparr>"
  by (simp add: V8Mwc1616_init_def Let_def)

lemma V8Mwc1616_init_high_zero:
  "drop_bit 32 seed AND 0xFFFFFFFF = 0 \<Longrightarrow>
   V8Mwc1616_init seed = \<lparr>v8_s1 = v8_s1 (V8Mwc1616_init seed), v8_s2 = 1\<rparr>"
  by (simp add: V8Mwc1616_init_def Let_def)

lemma byte_and_range: "0 \<le> (x :: int) AND 0xFF \<and> x AND 0xFF < 256"
proof -
  have "x AND 0xFF \<le> 0xFF"
    by (rule AND_upper2') simp_all
  then show ?thesis by simp
qed

lemma length_fill_pool:
  "length pool \<le> 256 \<Longrightarrow> length (fill_pool next_u16 prng pool) = 256"
proof (induction next_u16 prng pool rule: fill_pool.induct)
  case (1 next_u16 prng pool)
  show ?case
  proof (cases "length pool < 256")
    case True
    obtain val prng' where nx: "next_u16 prng = (val, prng')"
      by (cases "next_u16 prng")
    from True nx "1.IH" [OF True nx [symmetric]] show ?thesis
      by (subst fill_pool.simps) (auto split: if_splits)
  next
    case False
    with "1.prems" show ?thesis
      by (subst fill_pool.simps) simp
  qed
qed

lemma bytes_fill_pool:
  "list_all is_byte pool \<Longrightarrow> list_all is_byte (fill_pool next_u16 prng pool)"
proof (induction next_u16 prng pool rule: fill_pool.induct)
  case (1 next_u16 prng pool)
  show ?case
  proof (cases "length pool < 256")
    case True
    obtain val prng' where nx: "next_u16 prng = (val, prng')"
      by (cases "next_u16 prng")
    have b: "is_byte (drop_bit 8 val AND 0xFF)" "is_byte (val AND 0xFF)"
      using byte_and_range by (simp_all add: is_byte_def)
    from True nx b "1.prems" "1.IH" [OF True nx [symmetric]] show ?thesis
      by (subst fill_pool.simps) (auto split: if_splits)
  next
    case False
    with "1.prems" show ?thesis
      by (subst fill_pool.simps) simp
  qed
qed

section \<open>ARC4 against the cipher of the spec\<close>

lemma swap_entries_spec_swap:
  "i < length s \<Longrightarrow> j < length s \<Longrightarrow> swap_entries s i j = spec_swap s i j"
  by (rule nth_equalityI) (auto simp: swap_entries_def spec_swap_def nth_list_update)

lemma length_spec_swap: "length (spec_swap S a b) = length S"
  by (simp add: spec_swap_def)

lemma bytes_spec_swap:
  "a < length S \<Longrightarrow> b < length S \<Longrightarrow> list_all is_byte S \<Longrightarrow> list_all is_byte (spec_swap S a b)"
  by (auto simp: spec_swap_def list_all_iff)

lemma mod_256_nat_less: "nat (x mod 256) < 256"
  by simp

lemma int_nat_mod_256: "int (nat (x mod 256)) = x mod 256"
  by simp

lemma length_identity_table: "length (map int [0..<256]) = 256"
  by simp

lemma bytes_identity_table: "list_all is_byte (map int [0..<256])"
  by (auto simp: list_all_iff is_byte_def)

lemma spec_key_schedule_inv:
  "n \<le> 256 \<Longrightarrow>
   length (fst (spec_key_schedule key n)) = 256 \<and>
   snd (spec_key_schedule key n) < 256 \<and>
   list_all is_byte (fst (spec_key_schedule key n))"
proof (induction n)
  case 0
  show ?case
    using bytes_identity_table by simp
next
  case (Suc n)
  obtain S j where sj: "spec_key_schedule key n = (S, j)"
    by (cases "spec_key_schedule key n")
  from Suc sj have inv: "length S = 256" "j < 256" "list_all is_byte S"
    by simp_all
  from Suc.prems have n: "n < 256"
    by simp
  show ?case
    using inv n mod_256_nat_less
    by (simp add: sj Let_def length_spec_swap bytes_spec_swap)
qed

lemma ksa_refines:
  "n \<le> 256 \<Longrightarrow>
   foldl (ksa_step key) (map int [0..<256], 0) [0..<n] =
     (fst (spec_key_schedule key n), int (snd (spec_key_schedule key n)))"
proof (induction n)
  case 0
  show ?case by simp
next
  case (Suc n)
  obtain S j where sj: "spec_key_schedule key n = (S, j)"
    by (cases "spec_key_schedule key n")
  from Suc.prems have n: "n < 256" and le: "n \<le> 256"
    by simp_all
  from spec_key_schedule_inv [OF le, of key] sj have len: "length S = 256"
    by simp
  have step: "foldl (ksa_step key) (map int [0..<256], 0) [0..<n] = (S, int j)"
    using Suc.IH [OF le] sj by simp
  have sw: "swap_entries S n (nat ((int j + S ! n + key ! (n mod length key)) mod 256)) =
            spec_swap S n (nat ((int j + S ! n + key ! (n mod length key)) mod 256))"
    by (rule swap_entries_spec_swap) (simp_all add: len n)
  have "foldl (ksa_step key) (map int [0..<256], 0) [0..<Suc n] = ksa_step key (S, int j) n"
    by (simp only: upt_Suc_append [OF le0] foldl_append foldl.simps step)
  also have "\<dots> = (fst (spec_key_schedule key (Suc n)), int (snd (spec_key_schedule key (Suc n))))"
    by (simp add: ksa_step_def Let_def sj sw)
  finally show ?case .
qed

lemma ARC4_init_refines:
  "key \<noteq> [] \<Longrightarrow>
   ARC4_init key = Inr \<lparr>arc_s = fst (spec_key_schedule key 256), arc_i = 0, arc_j = 0\<rparr>"
  using ksa_refines [of 256 key] by (simp add: ARC4_init_def)

lemma spec_generator_inv:
  "length S0 = 256 \<Longrightarrow> list_all is_byte S0 \<Longrightarrow> spec_generator S0 n = (S, i, j) \<Longrightarrow>
   length S = 256 \<and> i < 256 \<and> j < 256 \<and> list_all is_byte S"
proof (induction n arbitrary: S i j)
  case 0
  then show ?case by simp
next
  case (Suc n)
  obtain S1 i1 j1 where g: "spec_generator S0 n = (S1, i1, j1)"
    by (cases "spec_generator S0 n") auto
  from Suc.IH [OF Suc.prems(1,2) g]
  have inv: "length S1 = 256" "i1 < 256" "j1 < 256" "list_all is_byte S1"
    by simp_all
  have i': "(i1 + 1) mod 256 < 256"
    by simp
  from Suc.prems(3) show ?case
    using inv i' mod_256_nat_less
    by (auto simp: g Let_def length_spec_swap bytes_spec_swap)
qed

lemma next_byte_refines:
  assumes len: "length S0 = 256" and bytes: "list_all is_byte S0"
    and cur: "spec_generator S0 n = (S, i, j)"
    and nxt: "spec_generator S0 (Suc n) = (S', i', j')"
  shows "next_byte \<lparr>arc_s = S, arc_i = int i, arc_j = int j\<rparr> =
           (spec_keystream_byte S0 n, \<lparr>arc_s = S', arc_i = int i', arc_j = int j'\<rparr>)"
proof -
  from spec_generator_inv [OF len bytes cur]
  have inv: "length S = 256" "i < 256" "j < 256"
    by simp_all
  from nxt cur have S': "S' = spec_swap S i' j'"
    and i': "i' = (i + 1) mod 256"
    and j': "j' = nat ((int j + S ! i') mod 256)"
    by (auto simp: Let_def)
  have i_eq: "(int i + 1) mod 256 = int i'"
    by (simp add: i' zmod_int ac_simps)
  have j_eq: "(int j + S ! i') mod 256 = int j'"
    by (simp add: j')
  have i_lt: "i' < length S"
    by (simp add: inv i')
  have j_lt: "j' < length S"
    using mod_256_nat_less by (simp add: inv j')
  have sw: "swap_entries S i' j' = S'"
    unfolding S' by (rule swap_entries_spec_swap [OF i_lt j_lt])
  have kb: "spec_keystream_byte S0 n = S' ! nat ((S' ! i' + S' ! j') mod 256)"
    unfolding spec_keystream_byte_def nxt by simp
  show ?thesis
    unfolding next_byte_def Let_def
    by (simp only: ARC4.select_convs i_eq nat_int j_eq sw kb)
qed

lemma next_bytes_refines:
  assumes len: "length S0 = 256" and bytes: "list_all is_byte S0"
  shows "spec_generator S0 n = (S, i, j) \<Longrightarrow>
         fst (next_bytes m \<lparr>arc_s = S, arc_i = int i, arc_j = int j\<rparr>) =
           map (spec_keystream_byte S0) [n..<n + m]"
proof (induction m arbitrary: n S i j)
  case 0
  show ?case by simp
next
  case (Suc m)
  obtain S' i' j' where nxt: "spec_generator S0 (Suc n) = (S', i', j')"
    by (cases "spec_generator S0 (Suc n)") auto
  have nb: "next_byte \<lparr>arc_s = S, arc_i = int i, arc_j = int j\<rparr> =
              (spec_keystream_byte S0 n, \<lparr>arc_s = S', arc_i = int i', arc_j = int j'\<rparr>)"
    by (rule next_byte_refines [OF len bytes Suc.prems nxt])
  have "fst (next_bytes (Suc m) \<lparr>arc_s = S, arc_i = int i, arc_j = int j\<rparr>) =
          spec_keystream_byte S0 n # fst (next_bytes m \<lparr>arc_s = S', arc_i = int i', arc_j = int j'\<rparr>)"
    by (simp add: nb split: prod.splits)
  also have "\<dots> = spec_keystream_byte S0 n # map (spec_keystream_byte S0) [Suc n..<Suc n + m]"
    using Suc.IH [OF nxt] by simp
  also have "\<dots> = map (spec_keystream_byte S0) (n # [Suc n..<Suc n + m])"
    by simp
  also have "n # [Suc n..<Suc n + m] = [n..<n + Suc m]"
    by (simp add: upt_conv_Cons)
  finally show ?case .
qed

lemma spec_keystream_byte_is_byte:
  assumes len: "length S0 = 256" and bytes: "list_all is_byte S0"
  shows "is_byte (spec_keystream_byte S0 n)"
proof -
  obtain S i j where g: "spec_generator S0 (Suc n) = (S, i, j)"
    by (cases "spec_generator S0 (Suc n)") auto
  from spec_generator_inv [OF len bytes g]
  have inv: "length S = 256" "list_all is_byte S"
    by simp_all
  have "nat ((S ! i + S ! j) mod 256) < length S"
    using mod_256_nat_less by (simp add: inv)
  with inv(2) have "is_byte (S ! nat ((S ! i + S ! j) mod 256))"
    by (simp add: list_all_length)
  then show ?thesis
    unfolding spec_keystream_byte_def g by simp
qed

lemma and_255_mod: "(x :: int) AND 0xFF = x mod 256"
proof -
  have "x AND mask 8 = x mod 2 ^ 8"
    by (simp only: flip: take_bit_eq_mask take_bit_eq_mod)
  then show ?thesis
    by (simp add: mask_eq_exp_minus_1)
qed

lemma ts_bytes_spec_le_byte: "k < 4 \<Longrightarrow> ts_bytes ts ! k = spec_le_byte ts k"
proof -
  assume "k < 4"
  then consider "k = 0" | "k = 1" | "k = 2" | "k = 3"
    by linarith
  then show ?thesis
    by cases (simp_all add: ts_bytes_def spec_le_byte_def and_255_mod drop_bit_eq_div)
qed

lemma upt_0_4: "[0..<4] = [0, 1, 2, 3]"
  by code_simp

lemma xor_timestamp_refines:
  assumes "4 \<le> length pool"
  shows "xor_timestamp ts pool = spec_whiten ts pool"
proof (rule nth_equalityI)
  show "length (xor_timestamp ts pool) = length (spec_whiten ts pool)"
    by (simp add: xor_timestamp_def spec_whiten_def upt_0_4)
next
  fix k
  assume "k < length (xor_timestamp ts pool)"
  then have k: "k < length pool"
    by (simp add: xor_timestamp_def upt_0_4)
  consider "k = 0" | "k = 1" | "k = 2" | "k = 3" | "4 \<le> k"
    by linarith
  then show "xor_timestamp ts pool ! k = spec_whiten ts pool ! k"
  proof cases
    case 1
    with k assms show ?thesis
      by (simp add: xor_timestamp_def spec_whiten_def upt_0_4 ts_bytes_spec_le_byte)
  next
    case 2
    with k assms show ?thesis
      by (simp add: xor_timestamp_def spec_whiten_def upt_0_4 ts_bytes_spec_le_byte)
  next
    case 3
    with k assms show ?thesis
      by (simp add: xor_timestamp_def spec_whiten_def upt_0_4 ts_bytes_spec_le_byte
          numeral_2_eq_2)
  next
    case 4
    with k assms show ?thesis
      by (simp add: xor_timestamp_def spec_whiten_def upt_0_4 ts_bytes_spec_le_byte
          numeral_3_eq_3)
  next
    case 5
    with k assms show ?thesis
      by (simp add: xor_timestamp_def spec_whiten_def upt_0_4)
  qed
qed

section \<open>derive\_privkey\_python\<close>

lemma engine_pool_supported:
  assumes "engine_type \<in> set [''v8'', ''java'', ''ie'', ''safari-win'']"
  shows "\<exists>pool. engine_pool ts engine_type = Some pool \<and> length pool = 256 \<and>
           list_all is_byte pool"
proof -
  have len: "length (fill_pool f g []) = 256" for f :: "'g \<Rightarrow> int \<times> 'g" and g
    by (rule length_fill_pool) simp
  have bytes: "list_all is_byte (fill_pool f g [])" for f :: "'g \<Rightarrow> int \<times> 'g" and g
    by (rule bytes_fill_pool) simp
  from assms consider "engine_type = ''v8''" | "engine_type = ''java''"
    | "engine_type = ''ie''" | "engine_type = ''safari-win''"
    by auto
  then show ?thesis
    by cases (simp_all add: engine_pool_def len bytes)
qed

lemma derive_refines:
  assumes pool: "engine_pool ts engine_type = Some pool" and len: "length pool = 256"
  shows "derive_privkey_python ts engine_type = Some (spec_privkey ts pool)"
proof -
  let ?key = "spec_whiten ts pool"
  let ?S0 = "fst (spec_key_schedule ?key 256)"
  have whiten: "xor_timestamp ts pool = ?key"
    by (rule xor_timestamp_refines) (simp add: len)
  have "length ?key = 256"
    by (simp add: spec_whiten_def len)
  then have ne: "?key \<noteq> []"
    by auto
  have init: "ARC4_init ?key = Inr \<lparr>arc_s = ?S0, arc_i = int 0, arc_j = int 0\<rparr>"
    using ARC4_init_refines [OF ne] by simp
  from spec_key_schedule_inv [of 256 ?key]
  have S0: "length ?S0 = 256" "list_all is_byte ?S0"
    by simp_all
  have "fst (next_bytes 32 \<lparr>arc_s = ?S0, arc_i = int 0, arc_j = int 0\<rparr>) =
          map (spec_keystream_byte ?S0) [0..<0 + 32]"
    by (rule next_bytes_refines [OF S0]) simp
  then show ?thesis
    by (simp add: derive_privkey_python_def pool whiten init spec_privkey_def)
qed

lemma spec_privkey_bytes:
  assumes "length pool = 256"
  shows "length (spec_privkey ts pool) = 32 \<and> list_all is_byte (spec_privkey ts pool)"
proof -
  let ?S0 = "fst (spec_key_schedule (spec_whiten ts pool) 256)"
  from spec_key_schedule_inv [of 256 "spec_whiten ts pool"]
  have S0: "length ?S0 = 256" "list_all is_byte ?S0"
    by simp_all
  show ?thesis
    by (simp add: spec_privkey_def list_all_iff spec_keystream_byte_is_byte [OF S0])
qed

text \<open>
  Equations for evaluation: the same functions, written so that each argument is computed
  before the function that takes it is unfolded.
\<close>

lemma fill_pool_eval [code]:
  "fill_pool next_u16 prng pool =
     (if length pool < 256 then
        fill_pool next_u16 (snd (next_u16 prng))
          (if length (pool @ [drop_bit 8 (fst (next_u16 prng)) AND 0xFF]) < 256
           then pool @ [drop_bit 8 (fst (next_u16 prng)) AND 0xFF] @ [fst (next_u16 prng) AND 0xFF]
           else pool @ [drop_bit 8 (fst (next_u16 prng)) AND 0xFF])
      else pool)"
  by (subst fill_pool.simps) (simp add: case_prod_beta)

lemma ksa_step_eval [code]:
  "ksa_step key sj i =
     (swap_entries (fst sj) i (nat ((snd sj + fst sj ! i + key ! (i mod length key)) mod 256)),
      (snd sj + fst sj ! i + key ! (i mod length key)) mod 256)"
  by (simp add: ksa_step_def case_prod_beta Let_def)

lemma next_bytes_eval [code]:
  "next_bytes 0 a = ([], a)"
  "next_bytes (Suc n) a = apfst ((#) (fst (next_byte a))) (next_bytes n (snd (next_byte a)))"
  by (simp_all add: case_prod_beta apfst_def map_prod_def)

lemma example_pool_value: "engine_pool 1389781800000 ''v8'' = Some example_pool"
  by code_simp

lemma example_table_value:
  "ARC4_init (xor_timestamp 1389781800000 example_pool) =
     Inr \<lparr>arc_s = example_table, arc_i = 0, arc_j = 0\<rparr>"
  by code_simp

lemma example_key_value:
  "fst (next_bytes 32 \<lparr>arc_s = example_table, arc_i = 0, arc_j = 0\<rparr>) = example_key"
  by code_simp

lemma derive_example: "derive_privkey_python 1389781800000 ''v8'' = Some example_key"
  by (simp add: derive_privkey_python_def example_pool_value example_table_value
      example_key_value)

lemma hexlify_example_key:
  "hexlify example_key = ''429af8f9ea831c01c7e9ce691a481a3c36944ad12ce8df113aad0118b5866943''"
  by code_simp

text \<open>
  C5 (zero-seed guard): a \<open>V8Mwc1616\<close> object built from a seed whose low 32 bits are
  zero gives, for every number of calls, the same \<open>next_u16\<close> values as an object whose
  register \<open>s1\<close> holds 1 and whose register \<open>s2\<close> is the one the seed gives; and the same
  with the two registers exchanged for a seed whose bits 32 to 63 are zero.
\<close>

theorem zero_seed_guard:
  "(seed AND 0xFFFFFFFF = 0 \<and> v8_s1 g = 1 \<and> v8_s2 g = v8_s2 (V8Mwc1616_init seed) \<longrightarrow>
      V8_outputs n (V8Mwc1616_init seed) = V8_outputs n g) \<and>
   (drop_bit 32 seed AND 0xFFFFFFFF = 0 \<and> v8_s2 g = 1 \<and> v8_s1 g = v8_s1 (V8Mwc1616_init seed) \<longrightarrow>
      V8_outputs n (V8Mwc1616_init seed) = V8_outputs n g)"
proof (intro conjI impI)
  assume "seed AND 0xFFFFFFFF = 0 \<and> v8_s1 g = 1 \<and> v8_s2 g = v8_s2 (V8Mwc1616_init seed)"
  then have "V8Mwc1616_init seed = g"
    using V8Mwc1616_init_low_zero [of seed] by (cases g) simp
  then show "V8_outputs n (V8Mwc1616_init seed) = V8_outputs n g"
    by simp
next
  assume "drop_bit 32 seed AND 0xFFFFFFFF = 0 \<and> v8_s2 g = 1 \<and>
          v8_s1 g = v8_s1 (V8Mwc1616_init seed)"
  then have "V8Mwc1616_init seed = g"
    using V8Mwc1616_init_high_zero [of seed] by (cases g) simp
  then show "V8_outputs n (V8Mwc1616_init seed) = V8_outputs n g"
    by simp
qed

theorem zero_seed_guard_witness:
  "V8_outputs 3 (V8Mwc1616_init 0x500000000) = V8_outputs 3 \<lparr>v8_s1 = 1, v8_s2 = 5\<rparr> \<and>
   V8_outputs 3 (V8Mwc1616_init 7) = V8_outputs 3 \<lparr>v8_s1 = 7, v8_s2 = 1\<rparr>"
proof -
  have low: "(0x500000000 :: int) AND 0xFFFFFFFF = 0"
    and s2: "v8_s2 (V8Mwc1616_init 0x500000000) = 5"
    and high: "drop_bit 32 (7 :: int) AND 0xFFFFFFFF = 0"
    and s1: "v8_s1 (V8Mwc1616_init 7) = 7"
    by code_simp+
  show ?thesis
    using zero_seed_guard [of "0x500000000" "\<lparr>v8_s1 = 1, v8_s2 = 5\<rparr>" 3]
      zero_seed_guard [of 7 "\<lparr>v8_s1 = 7, v8_s2 = 1\<rparr>" 3] low s2 high s1
    by simp
qed

text \<open>
  The guard in terms of seeds: a seed with a zero half and the seed with 1 in that half
  build the same object.
\<close>

lemma zero_seed_guard_seeds:
  "seed AND 0xFFFFFFFF = 0 \<Longrightarrow> seed' AND 0xFFFFFFFF = 1 \<Longrightarrow>
   drop_bit 32 seed' AND 0xFFFFFFFF = drop_bit 32 seed AND 0xFFFFFFFF \<Longrightarrow>
   V8_outputs n (V8Mwc1616_init seed) = V8_outputs n (V8Mwc1616_init seed')"
  "drop_bit 32 seed AND 0xFFFFFFFF = 0 \<Longrightarrow> drop_bit 32 seed' AND 0xFFFFFFFF = 1 \<Longrightarrow>
   seed' AND 0xFFFFFFFF = seed AND 0xFFFFFFFF \<Longrightarrow>
   V8_outputs n (V8Mwc1616_init seed) = V8_outputs n (V8Mwc1616_init seed')"
  by (simp_all add: V8Mwc1616_init_def Let_def)

text \<open>
  C1 (key extraction is deterministic and history-free): \<open>derive_privkey_python\<close> is a
  function of the timestamp and the engine alone: each call builds its generator, its
  pool and its cipher from its two arguments and reads nothing else, so two invocations
  on the same arguments return the same value. For every timestamp and each of the four
  supported engines that value is a key: the call returns (its loops end and no index
  leaves its list), and what it returns has 32 entries, each one a byte.
\<close>

theorem derive_privkey_python_key:
  "engine_type \<in> set [''v8'', ''java'', ''ie'', ''safari-win''] \<Longrightarrow>
   \<exists>key. derive_privkey_python ts engine_type = Some key \<and> length key = 32 \<and>
     list_all is_byte key"
proof -
  assume "engine_type \<in> set [''v8'', ''java'', ''ie'', ''safari-win'']"
  from engine_pool_supported [OF this, of ts]
  obtain pool where pool: "engine_pool ts engine_type = Some pool" and len: "length pool = 256"
    by auto
  show ?thesis
    using derive_refines [OF pool len] spec_privkey_bytes [OF len, of ts] by simp
qed

theorem derive_privkey_python_key_witness:
  "\<exists>key. derive_privkey_python 1389781800000 ''java'' = Some key \<and> length key = 32 \<and>
     list_all is_byte key"
  using derive_privkey_python_key [of "''java''" 1389781800000] by simp

text \<open>
  C3 (pool-whiten-then-stream-cipher): for every timestamp and supported engine the key
  is the first 32 keystream bytes of the cipher of the spec (256-entry table, key
  schedule, lagged-swap generator started right after the key schedule), keyed on the
  256-byte pool of the engine with its first 4 bytes XORed with the little-endian bytes
  of the timestamp.
\<close>

theorem privkey_is_keystream:
  "engine_type \<in> set [''v8'', ''java'', ''ie'', ''safari-win''] \<Longrightarrow>
   \<exists>pool. engine_pool ts engine_type = Some pool \<and> length pool = 256 \<and>
     list_all is_byte pool \<and>
     derive_privkey_python ts engine_type = Some (spec_privkey ts pool)"
proof -
  assume "engine_type \<in> set [''v8'', ''java'', ''ie'', ''safari-win'']"
  from engine_pool_supported [OF this, of ts]
  obtain pool where pool: "engine_pool ts engine_type = Some pool" and len: "length pool = 256"
    and bytes: "list_all is_byte pool"
    by auto
  show ?thesis
    using derive_refines [OF pool len] pool len bytes by simp
qed

theorem privkey_is_keystream_witness:
  "spec_privkey 1389781800000 example_pool = example_key"
proof -
  from privkey_is_keystream [of "''v8''" 1389781800000]
  have "derive_privkey_python 1389781800000 ''v8'' = Some (spec_privkey 1389781800000 example_pool)"
    by (simp add: example_pool_value)
  then show ?thesis
    by (simp add: derive_example)
qed

section \<open>The 256-bit transform on the block of "abc"\<close>

lemma schedule_abc: "schedule abc_data = abc_schedule"
  by code_simp

lemma rounds_0_8:
  "foldl (sha_round_with K abc_schedule)
     (0x6a09e667, 0xbb67ae85, 0x3c6ef372, 0xa54ff53a, 0x510e527f, 0x9b05688c, 0x1f83d9ab, 0x5be0cd19) [0..<8] =
     (0x85a07b5f, 0xe5030380, 0x2b4209f5, 0x04409a6a, 0x0c657a79, 0x9b27a401, 0x714260ad, 0x43ada245)"
  by code_simp

lemma rounds_8_16:
  "foldl (sha_round_with K abc_schedule)
     (0x85a07b5f, 0xe5030380, 0x2b4209f5, 0x04409a6a, 0x0c657a79, 0x9b27a401, 0x714260ad, 0x43ada245) [8..<16] =
     (0xb0fa238e, 0xc0645fde, 0xd932eb16, 0x87912990, 0x07590dcd, 0x0b92f20c, 0x745a48de, 0x1e578218)"
  by code_simp

lemma rounds_16_24:
  "foldl (sha_round_with K abc_schedule)
     (0xb0fa238e, 0xc0645fde, 0xd932eb16, 0x87912990, 0x07590dcd, 0x0b92f20c, 0x745a48de, 0x1e578218) [16..<24] =
     (0xc5d53d8d, 0xa7a3623f, 0xc2606d6d, 0x9dc68b63, 0xaa47c347, 0x49f5114a, 0xe1257970, 0x8ada8930)"
  by code_simp

lemma rounds_24_32:
  "foldl (sha_round_with K abc_schedule)
     (0xc5d53d8d, 0xa7a3623f, 0xc2606d6d, 0x9dc68b63, 0xaa47c347, 0x49f5114a, 0xe1257970, 0x8ada8930) [24..<32] =
     (0x73b33bf5, 0xea992a22, 0xa0060b30, 0x363482c9, 0xba591112, 0x0109ab3a, 0xade79437, 0x6112a3b7)"
  by code_simp

lemma rounds_32_40:
  "foldl (sha_round_with K abc_schedule)
     (0x73b33bf5, 0xea992a22, 0xa0060b30, 0x363482c9, 0xba591112, 0x0109ab3a, 0xade79437, 0x6112a3b7) [32..<40] =
     (0x79ea687a, 0x6dc57a8a, 0x34df1604, 0x41a65cb1, 0x1efbc0a0, 0xf0781bc8, 0xa507a53d, 0x0772a26b)"
  by code_simp

lemma rounds_40_48:
  "foldl (sha_round_with K abc_schedule)
     (0x79ea687a, 0x6dc57a8a, 0x34df1604, 0x41a65cb1, 0x1efbc0a0, 0xf0781bc8, 0xa507a53d, 0x0772a26b) [40..<48] =
     (0x4172328d, 0xa14c14b0, 0x72ab4b91, 0x26628815, 0xfecf0bc6, 0xd57b94a9, 0xb7755da1, 0xa80f11f0)"
  by code_simp

lemma rounds_48_56:
  "foldl (sha_round_with K abc_schedule)
     (0x4172328d, 0xa14c14b0, 0x72ab4b91, 0x26628815, 0xfecf0bc6, 0xd57b94a9, 0xb7755da1, 0xa80f11f0) [48..<56] =
     (0x38cc9913, 0x3ec45cdb, 0xf5702fdb, 0x101fd28f, 0x54cb266b, 0xe50e1b4f, 0x9f4787c3, 0x529e7d00)"
  by code_simp

lemma rounds_56_64:
  "foldl (sha_round_with K abc_schedule)
     (0x38cc9913, 0x3ec45cdb, 0xf5702fdb, 0x101fd28f, 0x54cb266b, 0xe50e1b4f, 0x9f4787c3, 0x529e7d00) [56..<64] =
     (0x84d70eef, 0xafffc532, 0x87d15dc7, 0xb85e2cc9, 0x0e280d1e, 0xae1943f1, 0x188cb619, 0x961f4874)"
  by code_simp

lemma rounds_56_64_fips:
  "foldl (sha_round_with K_fips abc_schedule)
     (0x38cc9913, 0x3ec45cdb, 0xf5702fdb, 0x101fd28f, 0x54cb266b, 0xe50e1b4f, 0x9f4787c3, 0x529e7d00) [56..<64] =
     (0x506e3058, 0xd39a2165, 0x04d24d6c, 0xb85e2ce9, 0x5ef50f24, 0xfb121210, 0x948d25b6, 0x961f4894)"
  by code_simp

lemma upt_64_chunks:
  "[0..<64] = [0..<8] @ [8..<16] @ [16..<24] @ [24..<32] @ [32..<40] @ [40..<48] @ [48..<56] @ [56..<64]"
  by code_simp

lemma rounds_0_64:
  "foldl (sha_round_with K abc_schedule)
     (0x6a09e667, 0xbb67ae85, 0x3c6ef372, 0xa54ff53a, 0x510e527f, 0x9b05688c, 0x1f83d9ab, 0x5be0cd19) [0..<64] =
     (0x84d70eef, 0xafffc532, 0x87d15dc7, 0xb85e2cc9, 0x0e280d1e, 0xae1943f1, 0x188cb619, 0x961f4874)"
  unfolding upt_64_chunks foldl_append
  by (simp only: rounds_0_8 rounds_8_16 rounds_16_24 rounds_24_32 rounds_32_40 rounds_40_48
      rounds_48_56 rounds_56_64)

lemma sha_round_with_fips:
  "i \<noteq> 60 \<Longrightarrow> sha_round_with K_fips m v i = sha_round_with K m v i"
  by (simp add: sha_round_with_def K_fips_def)

lemma rounds_0_56_fips:
  "foldl (sha_round_with K_fips abc_schedule) v [0..<56] =
   foldl (sha_round_with K abc_schedule) v [0..<56]"
  by (rule foldl_cong) (simp_all add: sha_round_with_fips)

lemma rounds_0_56:
  "foldl (sha_round_with K abc_schedule)
     (0x6a09e667, 0xbb67ae85, 0x3c6ef372, 0xa54ff53a, 0x510e527f, 0x9b05688c, 0x1f83d9ab, 0x5be0cd19) [0..<56] =
     (0x38cc9913, 0x3ec45cdb, 0xf5702fdb, 0x101fd28f, 0x54cb266b, 0xe50e1b4f, 0x9f4787c3, 0x529e7d00)"
proof -
  have "[0..<56] = [0..<8] @ [8..<16] @ [16..<24] @ [24..<32] @ [32..<40] @ [40..<48] @ [48..<56]"
    by code_simp
  then show ?thesis
    unfolding foldl_append
    by (simp only: foldl_append rounds_0_8 rounds_8_16 rounds_16_24 rounds_24_32 rounds_32_40
        rounds_40_48 rounds_48_56)
qed

lemma rounds_0_64_fips:
  "foldl (sha_round_with K_fips abc_schedule)
     (0x6a09e667, 0xbb67ae85, 0x3c6ef372, 0xa54ff53a, 0x510e527f, 0x9b05688c, 0x1f83d9ab, 0x5be0cd19) [0..<64] =
     (0x506e3058, 0xd39a2165, 0x04d24d6c, 0xb85e2ce9, 0x5ef50f24, 0xfb121210, 0x948d25b6, 0x961f4894)"
proof -
  have "[0..<64] = [0..<56] @ [56..<64]"
    by code_simp
  then show ?thesis
    by (simp only: foldl_append rounds_0_56_fips rounds_0_56 rounds_56_64_fips)
qed

lemma length_abc_data: "length abc_data = 16"
  by (simp add: abc_data_def)

lemma final_addition:
  "[(0x6a09e667 + 0x84d70eef) AND 0xffffffff, (0xbb67ae85 + 0xafffc532) AND 0xffffffff,
    (0x3c6ef372 + 0x87d15dc7) AND 0xffffffff, (0xa54ff53a + 0xb85e2cc9) AND 0xffffffff,
    (0x510e527f + 0x0e280d1e) AND 0xffffffff, (0x9b05688c + 0xae1943f1) AND 0xffffffff,
    (0x1f83d9ab + 0x188cb619) AND 0xffffffff, (0x5be0cd19 + 0x961f4874) AND (0xffffffff :: int)] =
   [0xeee0f556, 0x6b6773b7, 0xc4405139, 0x5dae2203, 0x5f365f9d, 0x491eac7d, 0x38108fc4, 0xf200158d]"
  by code_simp

lemma final_addition_fips:
  "[(0x6a09e667 + 0x506e3058) AND 0xffffffff, (0xbb67ae85 + 0xd39a2165) AND 0xffffffff,
    (0x3c6ef372 + 0x04d24d6c) AND 0xffffffff, (0xa54ff53a + 0xb85e2ce9) AND 0xffffffff,
    (0x510e527f + 0x5ef50f24) AND 0xffffffff, (0x9b05688c + 0xfb121210) AND 0xffffffff,
    (0x1f83d9ab + 0x948d25b6) AND 0xffffffff, (0x5be0cd19 + 0x961f4894) AND (0xffffffff :: int)] =
   [0xba7816bf, 0x8f01cfea, 0x414140de, 0x5dae2223, 0xb00361a3, 0x96177a9c, 0xb410ff61, 0xf20015ad]"
  by code_simp

text \<open>
  With the table of FIPS 180-4 the same rounds give the canonical digest of "abc": the
  rounds, the schedule and the final addition are the standard ones, and the round constant
  at index 60 is what separates \<open>transform\<close> from it.
\<close>

lemma transform_fips_abc:
  "transform_with K_fips initial_state abc_data =
     Inr [0xba7816bf, 0x8f01cfea, 0x414140de, 0x5dae2223,
          0xb00361a3, 0x96177a9c, 0xb410ff61, 0xf20015ad]"
  unfolding transform_with_def Let_def schedule_abc length_abc_data initial_state_def
  by (simp only: list.case prod.case rounds_0_64_fips final_addition_fips) simp

text \<open>
  C6 (oracle parity of the 256-bit transform on the padded block of "abc"): on the initial
  state vector and the block with word 0 = 0x61626380 and word 15 = 24, \<open>transform\<close>
  runs its 64 rounds, adds the working variables into the state and leaves
  eee0f556 6b6773b7 c4405139 5dae2203 5f365f9d 491eac7d 38108fc4 f200158d in it, which is
  not the canonical digest ba7816bf 8f01cfea 414140de 5dae2223 b00361a3 96177a9c b410ff61
  f20015ad.
\<close>

theorem transform_abc_digest:
  "transform initial_state abc_data =
     Inr [0xeee0f556, 0x6b6773b7, 0xc4405139, 0x5dae2203,
          0x5f365f9d, 0x491eac7d, 0x38108fc4, 0xf200158d] \<and>
   transform initial_state abc_data \<noteq>
     Inr [0xba7816bf, 0x8f01cfea, 0x414140de, 0x5dae2223,
          0xb00361a3, 0x96177a9c, 0xb410ff61, 0xf20015ad]"
proof -
  have "transform initial_state abc_data =
     Inr [0xeee0f556, 0x6b6773b7, 0xc4405139, 0x5dae2203,
          0x5f365f9d, 0x491eac7d, 0x38108fc4, 0xf200158d]"
    unfolding transform_def transform_with_def Let_def schedule_abc length_abc_data initial_state_def
    by (simp only: list.case prod.case rounds_0_64 final_addition) simp
  then show ?thesis by simp
qed

end
